theory Spec2Isabelle
  imports Main
begin

section \<open>Data model of the regex template tag\<close>

text \<open>
  Every \<^verbatim>\<open>throw new Error(...)\<close> of the sources is one constructor, named after
  its message. \<open>StageError\<close> is an error raised by a stage or helper whose code is
  not among the sources.
\<close>

datatype error =
    UnexpectedArguments
  | ImplicitFlags
  | CannotUseSubclass
  | RegExpContextMismatch
  | PrecededByIncompleteToken
  | StrayBreakoutChar string
  | BoundaryOperator
  | ModifiersNotSupported
  | InvalidRangeHyphen
  | IncompleteCharClassToken string
  | StageError string

text \<open>\<^verbatim>\<open>PluginData = {flags: string; useEmulationGroups: boolean}\<close>\<close>

record pluginData =
  pd_flags :: string
  useEmulationGroups :: bool

type_synonym plugin = "string \<Rightarrow> pluginData \<Rightarrow> error + string"

text \<open>
  \<^verbatim>\<open>RegexTagOptions\<close> as the caller writes it: every key may be absent.
  \<^verbatim>\<open>unicodeSetsPlugin\<close> may be absent, \<^verbatim>\<open>null\<close> or a plugin.
\<close>

record disableOptions =
  dis_x :: bool
  dis_n :: bool
  dis_v :: bool
  dis_atomic :: bool
  dis_subroutines :: bool

record forceOptions =
  force_v :: bool

record regexTagOptions =
  o_flags :: "string option"
  o_subclass :: "bool option"
  o_plugins :: "plugin list option"
  o_unicodeSetsPlugin :: "plugin option option"
  o_disable :: "disableOptions option"
  o_force :: "forceOptions option"

text \<open>\<^verbatim>\<open>Required<RegexTagOptions>\<close>, what \<^verbatim>\<open>getOptions\<close> returns.\<close>

record options =
  flags :: string
  subclass_opt :: bool
  plugins :: "plugin list"
  unicodeSetsPlugin :: "plugin option"
  disable :: disableOptions
  force :: forceOptions

definition noDisable :: disableOptions where
  "noDisable = \<lparr>dis_x = False, dis_n = False, dis_v = False, dis_atomic = False,
     dis_subroutines = False\<rparr>"

definition noForce :: forceOptions where
  "noForce = \<lparr>force_v = False\<rparr>"

text \<open>The object literal with the defaults, overwritten by \<^verbatim>\<open>...options\<close>.\<close>

definition withDefaults :: "plugin \<Rightarrow> regexTagOptions \<Rightarrow> options" where
  "withDefaults backcompatPlugin opt =
     \<lparr>flags = (case o_flags opt of None \<Rightarrow> [] | Some f \<Rightarrow> f),
      subclass_opt = (case o_subclass opt of None \<Rightarrow> False | Some b \<Rightarrow> b),
      plugins = (case o_plugins opt of None \<Rightarrow> [] | Some ps \<Rightarrow> ps),
      unicodeSetsPlugin =
        (case o_unicodeSetsPlugin opt of None \<Rightarrow> Some backcompatPlugin | Some p \<Rightarrow> p),
      disable = (case o_disable opt of None \<Rightarrow> noDisable | Some d \<Rightarrow> d),
      force = (case o_force opt of None \<Rightarrow> noForce | Some f \<Rightarrow> f)\<rparr>"

text \<open>\<^verbatim>\<open>/[nuvx]/.test(opts.flags)\<close>\<close>

definition hasImplicitFlag :: "string \<Rightarrow> bool" where
  "hasImplicitFlag fl = (\<exists>c \<in> set fl. c \<in> set ''nuvx'')"

text \<open>
  \<^verbatim>\<open>getOptions\<close>. The constant \<^verbatim>\<open>flagVSupported\<close> of utils.js and the
  \<^verbatim>\<open>backcompatPlugin\<close> of backcompat.js are parameters.
\<close>

definition getOptions :: "bool \<Rightarrow> plugin \<Rightarrow> regexTagOptions \<Rightarrow> error + options" where
  "getOptions flagVSupported backcompatPlugin opt =
     (let opts = withDefaults backcompatPlugin opt in
      if hasImplicitFlag (flags opts) then Inl ImplicitFlags
      else
        let useFlagV = (force_v (force opts) \<or>
                        (if dis_v (disable opts) then False else flagVSupported))
        in Inr (opts\<lparr>flags := flags opts @ (if useFlagV then ''v'' else ''u''),
                      unicodeSetsPlugin :=
                        (if useFlagV then None else unicodeSetsPlugin opts)\<rparr>))"

section \<open>Regular expressions of the sources\<close>

text \<open>
  The sources decide most of what they do with regular expressions, so these are
  embedded as syntax trees with a backtracking matcher. A state is the text before the
  position (reversed), the text after it, and the groups captured so far. \<open>ms\<close>
  returns every way to match in the order in which a backtracking engine would try
  them: the head is the match the engine reports. Flags \<^verbatim>\<open>s\<close> and \<^verbatim>\<open>u\<close> are
  assumed (\<open>Dot\<close> matches every character); a character of the model is one code point
  below 256.
\<close>

datatype re =
    Chr char
  | Dot
  | Cls "char list"
  | NCls "char list"
  | Eps
  | Seq re re
  | Alt re re
  | Opt re
  | Star re
  | Grp string re
  | Bref string
  | Ahead re
  | NAhead re
  | Behind re
  | NBehind re
  | Bos
  | Eos

abbreviation bs :: char where
  "bs \<equiv> CHR 0x5C"

type_synonym mstate = "string \<times> string \<times> (string \<times> string) list"

fun stepChar :: "bool \<Rightarrow> (char \<Rightarrow> bool) \<Rightarrow> mstate \<Rightarrow> mstate list" where
  "stepChar True p (b, x # a, g) = (if p x then [(x # b, a, g)] else [])"
| "stepChar True p (b, [], g) = []"
| "stepChar False p (x # b, a, g) = (if p x then [(b, x # a, g)] else [])"
| "stepChar False p ([], a, g) = []"

fun stepLit :: "bool \<Rightarrow> string \<Rightarrow> mstate \<Rightarrow> mstate list" where
  "stepLit True v (b, a, g) =
     (if take (length v) a = v then [(rev v @ b, drop (length v) a, g)] else [])"
| "stepLit False v (b, a, g) =
     (if take (length v) b = rev v then [(drop (length v) b, v @ a, g)] else [])"

text \<open>What is left to read in the direction of matching (a lookbehind reads backwards).\<close>

fun todo :: "bool \<Rightarrow> mstate \<Rightarrow> nat" where
  "todo True (b, a, g) = length a"
| "todo False (b, a, g) = length b"

fun captured :: "bool \<Rightarrow> mstate \<Rightarrow> mstate \<Rightarrow> string" where
  "captured True (b, a, g) (b', a', g') = take (length a - length a') a"
| "captured False (b, a, g) (b', a', g') = take (length a' - length a) a'"

fun setGroup :: "string \<Rightarrow> string \<Rightarrow> mstate \<Rightarrow> mstate" where
  "setGroup n v (b, a, g) = (b, a, (n, v) # g)"

text \<open>
  An iteration of a quantifier that matches the empty string is rejected, as the
  language's \<^verbatim>\<open>RepeatMatcher\<close> does; this is also what makes \<open>Star\<close> terminate.
\<close>

function ms :: "bool \<Rightarrow> re \<Rightarrow> mstate \<Rightarrow> mstate list" where
  "ms fwd (Chr c) s = stepChar fwd (\<lambda>x. x = c) s"
| "ms fwd Dot s = stepChar fwd (\<lambda>x. True) s"
| "ms fwd (Cls cs) s = stepChar fwd (\<lambda>x. x \<in> set cs) s"
| "ms fwd (NCls cs) s = stepChar fwd (\<lambda>x. x \<notin> set cs) s"
| "ms fwd Eps s = [s]"
| "ms fwd (Seq r1 r2) s =
     (if fwd then concat (map (ms fwd r2) (ms fwd r1 s))
      else concat (map (ms fwd r1) (ms fwd r2 s)))"
| "ms fwd (Alt r1 r2) s = ms fwd r1 s @ ms fwd r2 s"
| "ms fwd (Opt r) s = filter (\<lambda>s'. todo fwd s' < todo fwd s) (ms fwd r s) @ [s]"
| "ms fwd (Star r) s =
     concat (map (\<lambda>s'. if todo fwd s' < todo fwd s then ms fwd (Star r) s' else [])
                 (ms fwd r s)) @ [s]"
| "ms fwd (Grp n r) s = map (\<lambda>s'. setGroup n (captured fwd s s') s') (ms fwd r s)"
| "ms fwd (Bref n) s =
     (case map_of (snd (snd s)) n of None \<Rightarrow> [s] | Some v \<Rightarrow> stepLit fwd v s)"
| "ms fwd (Ahead r) s =
     (case ms True r s of [] \<Rightarrow> [] | (b, a, g) # _ \<Rightarrow> [(fst s, fst (snd s), g)])"
| "ms fwd (NAhead r) s = (case ms True r s of [] \<Rightarrow> [s] | _ # _ \<Rightarrow> [])"
| "ms fwd (Behind r) s =
     (case ms False r s of [] \<Rightarrow> [] | (b, a, g) # _ \<Rightarrow> [(fst s, fst (snd s), g)])"
| "ms fwd (NBehind r) s = (case ms False r s of [] \<Rightarrow> [s] | _ # _ \<Rightarrow> [])"
| "ms fwd Bos s = (if fst s = [] then [s] else [])"
| "ms fwd Eos s = (if fst (snd s) = [] then [s] else [])"
  by pat_completeness auto
termination
  by (relation "inv_image (less_than <*lex*> less_than) (\<lambda>(fwd, r, s). (size r, todo fwd s))")
    auto

declare ms.simps(9) [simp del]






text \<open>A literal string, \<^verbatim>\<open>r+\<close>, and \<^verbatim>\<open>r{n}\<close>.\<close>

fun lit :: "string \<Rightarrow> re" where
  "lit [] = Eps"
| "lit [c] = Chr c"
| "lit (c # cs) = Seq (Chr c) (lit cs)"

definition Plus :: "re \<Rightarrow> re" where
  "Plus r = Seq r (Star r)"

fun Times :: "nat \<Rightarrow> re \<Rightarrow> re" where
  "Times 0 r = Eps"
| "Times (Suc 0) r = r"
| "Times (Suc n) r = Seq r (Times n r)"

text \<open>
  \<^verbatim>\<open>String.prototype.matchAll\<close> with flag \<^verbatim>\<open>g\<close>: the leftmost match from the
  last index on, then on from its end (one character further after an empty match).
  A match is its text, its groups and the input after it.
\<close>

record rmatch =
  mtext :: string
  mgroups :: "(string \<times> string) list"
  mrest :: string

fun search :: "re \<Rightarrow> string \<Rightarrow> string \<Rightarrow> (string \<times> string \<times> mstate) option" where
  "search r b [] = (case ms True r (b, [], []) of [] \<Rightarrow> None | s # _ \<Rightarrow> Some (b, [], s))"
| "search r b (x # a) =
     (case ms True r (b, x # a, []) of [] \<Rightarrow> search r (x # b) a
      | s # _ \<Rightarrow> Some (b, x # a, s))"

lemma search_length: "search r b a = Some (b0, a0, s) \<Longrightarrow> length a0 \<le> length a"
  by (induction a arbitrary: b) (auto split: list.splits intro: le_SucI)

function matchAll :: "re \<Rightarrow> string \<Rightarrow> string \<Rightarrow> rmatch list" where
  "matchAll r b a =
     (case search r b a of None \<Rightarrow> []
      | Some (b0, a0, (b1, a1, g)) \<Rightarrow>
          \<lparr>mtext = take (length a0 - length a1) a0, mgroups = g, mrest = a1\<rparr> #
          (if length a1 < length a0 then matchAll r b1 a1
           else (case a0 of [] \<Rightarrow> [] | x # a2 \<Rightarrow> matchAll r (x # b0) a2)))"
  by pat_completeness auto
termination
  by (relation "measure (\<lambda>(r, b, a). length a)") (auto dest: search_length)

declare matchAll.simps [simp del]

text \<open>\<^verbatim>\<open>RegExp.prototype.test\<close> without flag \<^verbatim>\<open>g\<close>.\<close>

definition rtest :: "re \<Rightarrow> string \<Rightarrow> bool" where
  "rtest r s = (search r [] s \<noteq> None)"

section \<open>The package regex-utilities\<close>

text \<open>
  \<^verbatim>\<open>replaceUnescaped(expression, needle, replacement, context)\<close> of the package
  regex-utilities, which the sources import: it walks the expression with
  \<^verbatim>\<open>needle|(?<$skip>\[\^?|\\?.)\<close>, counts the open character classes, and replaces a
  match of the needle where the context is the requested one. A replacement is a
  function of the match; here it also threads the state that the callbacks of the
  sources mutate. The stack \<^verbatim>\<open>negated\<close> is left out: no callback of the sources
  reads it.
\<close>

datatype ruContext = Ctx_DEFAULT | Ctx_CHAR_CLASS

definition skipRe :: re where
  "skipRe = Grp ''$skip'' (Alt (Seq (Chr CHR ''['') (Opt (Chr CHR ''^'')))
                               (Seq (Opt (Chr bs)) Dot))"

definition needleRe :: "re \<Rightarrow> re" where
  "needleRe needle = Alt needle skipRe"

text \<open>
  The length of the token that \<open>skipRe\<close> reads, and the first match of the walk at
  a position.
\<close>

fun skipLen :: "string \<Rightarrow> nat" where
  "skipLen [] = 0"
| "skipLen (c # r) =
     (if c = CHR ''['' then (if take 1 r = ''^'' then 2 else 1)
      else if c = bs \<and> r \<noteq> [] then 2 else 1)"


definition countOpen :: "string \<Rightarrow> nat \<Rightarrow> nat" where
  "countOpen m n =
     (if take 1 m = ''['' then n + 1 else if m = '']'' \<and> 0 < n then n - 1 else n)"

fun ruStep :: "ruContext option \<Rightarrow> (rmatch \<Rightarrow> 'st \<Rightarrow> string \<times> 'st) \<Rightarrow>
    nat \<times> string \<times> 'st \<Rightarrow> rmatch \<Rightarrow> nat \<times> string \<times> 'st" where
  "ruStep ctx replacement (n, result, st) mt =
     (if map_of (mgroups mt) ''$skip'' = None \<and>
         (ctx = None \<or> ((ctx = Some Ctx_DEFAULT) = (n = 0)))
      then (case replacement mt st of (out, st') \<Rightarrow> (n, result @ out, st'))
      else (countOpen (mtext mt) n, result @ mtext mt, st))"


definition replaceUnescapedSt :: "string \<Rightarrow> re \<Rightarrow> (rmatch \<Rightarrow> 'st \<Rightarrow> string \<times> 'st) \<Rightarrow>
    ruContext option \<Rightarrow> 'st \<Rightarrow> string \<times> 'st" where
  "replaceUnescapedSt expression needle replacement ctx st =
     snd (foldl (ruStep ctx replacement) (0, [], st) (matchAll (needleRe needle) [] expression))"

text \<open>
  The call with a string as the replacement, and the text it puts out from a
  position on, with a number of classes open.
\<close>

definition walkFrom :: "re \<Rightarrow> string \<Rightarrow> ruContext option \<Rightarrow> nat \<Rightarrow> string \<Rightarrow> string \<Rightarrow>
    string" where
  "walkFrom needle replacement ctx n b a =
     fst (snd (foldl (ruStep ctx (\<lambda>mt st. (replacement, st))) (n, [], ())
                 (matchAll (needleRe needle) b a)))"


definition replaceUnescaped :: "string \<Rightarrow> re \<Rightarrow> string \<Rightarrow> ruContext option \<Rightarrow> string" where
  "replaceUnescaped expression needle replacement ctx =
     fst (replaceUnescapedSt expression needle (\<lambda>mt st. (replacement, st)) ctx ())"

text \<open>
  \<^verbatim>\<open>hasUnescaped(expression, needle, context)\<close> of the same package: whether
  \<^verbatim>\<open>needle|(?<$skip>\\?.)\<close> finds the needle in the requested context. Its quick test
  (the needle occurs anywhere) comes first, as in the package.
\<close>

definition skipRe1 :: re where
  "skipRe1 = Grp ''$skip'' (Seq (Opt (Chr bs)) Dot)"

fun execUnescapedLoop :: "ruContext option \<Rightarrow> nat \<Rightarrow> rmatch list \<Rightarrow> bool" where
  "execUnescapedLoop ctx n [] = False"
| "execUnescapedLoop ctx n (mt # rest) =
     (if map_of (mgroups mt) ''$skip'' = None \<and>
         (ctx = None \<or> ((ctx = Some Ctx_DEFAULT) = (n = 0)))
      then True
      else execUnescapedLoop ctx
             (if mtext mt = ''['' then n + 1
              else if mtext mt = '']'' \<and> 0 < n then n - 1 else n) rest)"

definition hasUnescaped :: "string \<Rightarrow> re \<Rightarrow> ruContext option \<Rightarrow> bool" where
  "hasUnescaped expression needle ctx =
     (rtest needle expression \<and>
      execUnescapedLoop ctx 0 (matchAll (Alt needle skipRe1) [] expression))"

section \<open>What the sources import from utils.js and from the other stages\<close>

datatype regexContext =
    R_DEFAULT
  | R_CHAR_CLASS
  | R_ENCLOSED_P
  | R_ENCLOSED_U
  | R_GROUP_NAME
  | R_INTERVAL_QUANTIFIER
  | R_INVALID_INCOMPLETE_TOKEN

datatype charClassContext =
    CC_DEFAULT
  | CC_ENCLOSED_P
  | CC_ENCLOSED_U
  | CC_Q_TOKEN
  | CC_RANGE
  | CC_INVALID_INCOMPLETE_TOKEN

record runningContext =
  regexContext :: regexContext
  charClassContext :: charClassContext
  charClassDepth :: nat
  lastPos :: nat

text \<open>
  \<^verbatim>\<open>InterpolatedValue = string | RegExp | Pattern | number\<close>. A \<^verbatim>\<open>RegExp\<close> is its
  source and its flags. A number is an integer here: fractions, \<^verbatim>\<open>NaN\<close> and the
  exponent notation of large magnitudes are outside the model.
\<close>

datatype interpolatedValue =
    PlainText string
  | NativeRegex string string
  | TrustedPattern string
  | Number int

type_synonym preprocessor =
  "string \<Rightarrow> runningContext option \<Rightarrow> error + (string \<times> runningContext option)"

text \<open>
  utils.js is not among the sources. Its constants and helpers are the fields of
  this record, so that a property of the sources holds for whatever utils.js
  implements; the regular expressions it exports as strings are syntax trees.
\<close>

record utils =
  capturingDelim :: re
  noncapturingDelim :: re
  emulationGroupMarker :: string
  doublePunctuatorChars :: string
  flagVSupported :: bool
  patternModsSupported :: bool
  enclosedTokenRegexContexts :: "regexContext list"
  enclosedTokenCharClassContexts :: "charClassContext list"
  adjustNumberedBackrefs :: "string \<Rightarrow> nat \<Rightarrow> string"
  containsCharClassUnion :: "string \<Rightarrow> bool"
  countCaptures :: "string \<Rightarrow> nat"
  escapeV :: "string \<Rightarrow> ruContext \<Rightarrow> string"
  getBreakoutChar :: "string \<Rightarrow> regexContext \<Rightarrow> charClassContext \<Rightarrow> string"
  getEndContextForIncompleteExpression ::
    "string \<Rightarrow> runningContext option \<Rightarrow> runningContext"
  sandboxLoneCharClassCaret :: "string \<Rightarrow> string"
  sandboxLoneDoublePunctuatorChar :: "string \<Rightarrow> string"
  sandboxUnsafeNulls :: "string \<Rightarrow> ruContext option \<Rightarrow> string"

text \<open>The stages of flag-n.js, atomic.js, subroutines.js and backcompat.js.\<close>

record stages =
  flagNPreprocessor :: preprocessor
  possessivePlugin :: plugin
  atomicPlugin :: plugin
  subroutinesPlugin :: plugin
  backcompatPlugin :: plugin

section \<open>Emulation groups: the capture map and the wrapped exec\<close>

text \<open>
  \<^verbatim>\<open>emulationGroupMarker.replace(/\$/g, '\\$')\<close> is the marker as a pattern that
  matches its own text: the marker is taken to have no pattern syntax besides
  \<^verbatim>\<open>$\<close>.
\<close>

definition markerRe :: "string \<Rightarrow> re" where
  "markerRe marker = lit marker"

text \<open>\<^verbatim>\<open>(?:${capturingDelim})(?<mark>${marker})?\<close>\<close>

definition unmarkNeedle :: "utils \<Rightarrow> re" where
  "unmarkNeedle U =
     Seq (capturingDelim U) (Opt (Grp ''mark'' (markerRe (emulationGroupMarker U))))"

text \<open>The callback: \<^verbatim>\<open>mark\<close> is truthy when the group took part and is not empty.\<close>

definition unmarkCallback :: "string \<Rightarrow> rmatch \<Rightarrow> bool list \<Rightarrow> string \<times> bool list" where
  "unmarkCallback marker mt captureMap =
     (case map_of (mgroups mt) ''mark'' of
        None \<Rightarrow> (mtext mt, captureMap @ [True])
      | Some mark \<Rightarrow>
          if mark \<noteq> []
          then (take (length (mtext mt) - length marker) (mtext mt), captureMap @ [False])
          else (mtext mt, captureMap @ [True]))"





record unmarked =
  um_captureMap :: "bool list"
  um_expression :: string

definition unmarkEmulationGroups :: "utils \<Rightarrow> string \<Rightarrow> unmarked" where
  "unmarkEmulationGroups U expression =
     (case replaceUnescapedSt expression (unmarkNeedle U)
             (unmarkCallback (emulationGroupMarker U)) (Some Ctx_DEFAULT) [True] of
        (e, captureMap) \<Rightarrow> \<lparr>um_captureMap = captureMap, um_expression = e\<rparr>)"

text \<open>
  \<^verbatim>\<open>WrappedRegExp\<close>: the arguments of the native constructor and the private
  capture map, absent when the constructor got no \<^verbatim>\<open>data\<close>.
\<close>

record wrappedRegExp =
  w_source :: string
  w_flags :: string
  w_captureMap :: "bool list option"



section \<open>flag-x.js: the cleanup plugin\<close>

definition sep :: re where
  "sep = lit ''(?:)''"

text \<open>\<^verbatim>\<open>(?:${sep}){2,}\<close>\<close>

definition repeatedSep :: re where
  "repeatedSep = Seq (Times 2 sep) (Star sep)"

text \<open>
  \<^verbatim>\<open>(?:${sep}(?=[)|.[$\\]|\((?!DEFINE)|$)|(?<=[()|.\]^>]|\\[bBdDfnrsStvwW]|\(\?(?:[:=!]|<[=!])|^)${sep}(?![?*+{]))(?!${marker})\<close>
\<close>

definition boundaryAhead :: re where
  "boundaryAhead =
     Alt (Cls ('')|.[$'' @ [bs]))
         (Alt (Seq (Chr CHR ''('') (NAhead (lit ''DEFINE''))) Eos)"

definition boundaryBehind :: re where
  "boundaryBehind =
     Alt (Cls ''()|.]^>'')
    (Alt (Seq (Chr bs) (Cls ''bBdDfnrsStvwW''))
    (Alt (Seq (lit ''(?'') (Alt (Cls '':=!'') (Seq (Chr CHR ''<'') (Cls ''=!''))))
         Bos))"

definition quantifierAhead :: re where
  "quantifierAhead = Cls ''?*+{''"

definition sepFollowed :: re where
  "sepFollowed = Seq sep (Ahead boundaryAhead)"

definition sepPreceded :: re where
  "sepPreceded = Seq (Behind boundaryBehind) (Seq sep (NAhead quantifierAhead))"

definition removableSep :: "string \<Rightarrow> re" where
  "removableSep marker = Seq (Alt sepFollowed sepPreceded) (NAhead (markerRe marker))"

definition cleanPlugin :: "utils \<Rightarrow> string \<Rightarrow> string" where
  "cleanPlugin U expression =
     replaceUnescaped
       (replaceUnescaped expression repeatedSep ''(?:)'' (Some Ctx_DEFAULT))
       (removableSep (emulationGroupMarker U)) [] (Some Ctx_DEFAULT)"

text \<open>
  The cleanup as the spec words it, to compare \<open>cleanPlugin\<close> with. The text before a
  separator is given last character first. A separator may go when it is followed by
  the end or by a boundary token, or when it is preceded by the start or by a boundary
  token and no quantifier follows; never when the marker follows.
\<close>

definition followedByQuantifier :: "string \<Rightarrow> bool" where
  "followedByQuantifier post = (case post of [] \<Rightarrow> False | c # r \<Rightarrow> c \<in> set ''?*+{'')"

definition followedByBoundary :: "string \<Rightarrow> bool" where
  "followedByBoundary post =
     (case post of [] \<Rightarrow> False
      | c # r \<Rightarrow> c \<in> set ('')|.[$'' @ [bs]) \<or> (c = CHR ''('' \<and> take 6 r \<noteq> ''DEFINE''))"

definition precededByBoundary :: "string \<Rightarrow> bool" where
  "precededByBoundary pre =
     (case pre of [] \<Rightarrow> False
      | x # b \<Rightarrow>
          x \<in> set ''()|.]^>'' \<or>
          (x \<in> set ''bBdDfnrsStvwW'' \<and> take 1 b = [bs]) \<or>
          (x \<in> set '':=!'' \<and> take 2 b = ''?('') \<or>
          (x \<in> set ''=!'' \<and> take 3 b = ''<?(''))"

definition removable :: "string \<Rightarrow> string \<Rightarrow> string \<Rightarrow> bool" where
  "removable marker pre post =
     (((pre = [] \<and> \<not> followedByQuantifier post) \<or>
       post = [] \<or>
       followedByBoundary post \<or>
       (precededByBoundary pre \<and> \<not> followedByQuantifier post)) \<and>
      take (length marker) post \<noteq> marker)"

text \<open>The number of separators that a text starts with.\<close>

function leadingSeps :: "string \<Rightarrow> nat" where
  "leadingSeps a = (if take 4 a = ''(?:)'' then Suc (leadingSeps (drop 4 a)) else 0)"
  by pat_completeness auto
termination
  by (relation "measure length") (auto simp: take_eq_Nil2 dest: arg_cong [where f = length])

declare leadingSeps.simps [simp del]

lemma skipLen_pos: "a \<noteq> [] \<Longrightarrow> 0 < skipLen a"
  by (cases a) auto

text \<open>
  Both passes walk the text token by token (an opening bracket with the caret that
  follows it, an escaped character, or one character) and count the open character
  classes. The first pass puts one separator for a run of two or more outside a
  class; the second drops a removable separator outside a class.
\<close>

function specCollapse :: "nat \<Rightarrow> string \<Rightarrow> string" where
  "specCollapse n a =
     (if a = [] then []
      else if 2 \<le> leadingSeps a
      then (if n = 0 then ''(?:)'' else take (4 * leadingSeps a) a) @
           specCollapse n (drop (4 * leadingSeps a) a)
      else take (skipLen a) a @
           specCollapse (countOpen (take (skipLen a) a) n) (drop (skipLen a) a))"
  by pat_completeness auto
termination
  by (relation "measure (\<lambda>(n, a). length a)") (auto simp: skipLen_pos)

declare specCollapse.simps [simp del]

function specRemove :: "string \<Rightarrow> nat \<Rightarrow> string \<Rightarrow> string \<Rightarrow> string" where
  "specRemove marker n pre a =
     (if a = [] then []
      else if take 4 a = ''(?:)'' \<and> removable marker pre (drop 4 a)
      then (if n = 0 then [] else ''(?:)'') @
           specRemove marker n (rev ''(?:)'' @ pre) (drop 4 a)
      else take (skipLen a) a @
           specRemove marker (countOpen (take (skipLen a) a) n)
             (rev (take (skipLen a) a) @ pre) (drop (skipLen a) a))"
  by pat_completeness auto
termination
  by (relation "measure (\<lambda>(marker, n, pre, a). length a)") (auto simp: skipLen_pos)

declare specRemove.simps [simp del]

definition specCleanup :: "string \<Rightarrow> string \<Rightarrow> string" where
  "specCleanup marker expression = specRemove marker 0 [] (specCollapse 0 expression)"

section \<open>flag-x.js: insignificant whitespace and comments\<close>

text \<open>\<^verbatim>\<open>\s\<close> on code points below 256, \<^verbatim>\<open>\d\<close>, and the letters and digits of the token.\<close>

definition wsChars :: string where
  "wsChars = [CHR 0x09, CHR 0x0A, CHR 0x0B, CHR 0x0C, CHR 0x0D, CHR 0x20, CHR 0xA0]"

definition digitChars :: string where
  "digitChars = ''0123456789''"

definition hexChars :: string where
  "hexChars = ''ABCDEFabcdef'' @ digitChars"

definition letterChars :: string where
  "letterChars = ''ABCDEFGHIJKLMNOPQRSTUVWXYZabcdefghijklmnopqrstuvwxyz''"

text \<open>\<^verbatim>\<open>ws\<close>, \<^verbatim>\<open>escapedWsOrHash\<close>, \<^verbatim>\<open>charClassWs\<close>, \<^verbatim>\<open>escapedCharClassWs\<close>\<close>

definition ws :: re where
  "ws = Seq Bos (Seq (Cls wsChars) Eos)"

definition escapedWsOrHash :: re where
  "escapedWsOrHash = Seq Bos (Seq (Chr bs) (Seq (Cls (wsChars @ ''#'')) Eos))"

definition charClassWs :: re where
  "charClassWs = Seq Bos (Seq (Cls [CHR 0x20, CHR 0x09]) Eos)"

definition escapedCharClassWs :: re where
  "escapedCharClassWs = Seq Bos (Seq (Chr bs) (Seq (Cls [CHR 0x20, CHR 0x09]) Eos))"

text \<open>\<^verbatim>\<open>/^(?:[?*+]|\?\?)$/\<close>\<close>

definition quantifierToken :: re where
  "quantifierToken = Seq Bos (Seq (Alt (Cls ''?*+'') (lit ''??'')) Eos)"

text \<open>The \<^verbatim>\<open>token\<close> of flag-x.js, alternative by alternative.\<close>

definition token :: "utils \<Rightarrow> re" where
  "token U =
     Alt (Seq (Chr bs)
            (Alt (Seq (Cls ''gk'') (Chr CHR ''<''))
            (Alt (Seq (Cls ''pPu'') (Chr CHR ''{''))
            (Alt (Seq (Chr CHR ''c'') (Cls letterChars))
            (Alt (Seq (Chr CHR ''u'') (Times 4 (Cls hexChars)))
            (Alt (Seq (Chr CHR ''x'') (Times 2 (Cls hexChars)))
                 (Seq (Chr CHR ''0'') (Plus (Cls digitChars)))))))))
    (Alt (lit ''[^'')
    (Alt (noncapturingDelim U)
    (Alt (lit ''(?<'')
    (Alt (Seq (Grp ''dp'' (Cls (doublePunctuatorChars U))) (Bref ''dp''))
    (Alt (lit ''--'')
         (Seq (Opt (Chr bs)) Dot))))))"

text \<open>
  The local variables of \<^verbatim>\<open>flagXPreprocessor\<close>. The last significant character
  class context starts as the empty string, which is no context.
\<close>

record fxState =
  ignoringWs :: bool
  ignoringCharClassWs :: bool
  ignoringComment :: bool
  fx_expression :: string
  transformed :: string
  lastSignificantToken :: string
  lastSignificantCharClassContext :: "charClassContext option"
  separatorNeeded :: bool
  fx_runningContext :: "runningContext option"

text \<open>
  \<^verbatim>\<open>transformed += update(str, {prefix, postfix})\<close>: the separator that is due goes
  before the string when \<^verbatim>\<open>prefix\<close> is set, and is forgotten either way.
\<close>

definition update :: "fxState \<Rightarrow> string \<Rightarrow> bool \<Rightarrow> bool \<Rightarrow> fxState" where
  "update st str prefix postfix =
     st\<lparr>transformed := transformed st @
            (if separatorNeeded st \<and> prefix then ''(?:)'' else []) @ str @
            (if postfix then ''(?:)'' else []),
        separatorNeeded := False\<rparr>"

text \<open>The body of the loop after \<^verbatim>\<open>expression += m\<close> and the check of the hyphen.\<close>

definition fxToken :: "utils \<Rightarrow> fxState \<Rightarrow> string \<Rightarrow> regexContext \<Rightarrow> charClassContext \<Rightarrow>
    error + fxState" where
  "fxToken U st m rc cc =
     (if (rc = R_DEFAULT \<and> rtest quantifierToken m) \<or>
         (rc = R_INTERVAL_QUANTIFIER \<and> m = ''{'')
      then Inr (update st m False (lastSignificantToken st = ''('' \<and> m = ''?''))
      else if rc = R_DEFAULT then
        (if rtest ws m then Inr (st\<lparr>ignoringWs := True\<rparr>)
         else if take 1 m = ''#'' then Inr (st\<lparr>ignoringComment := True\<rparr>)
         else if rtest escapedWsOrHash m then Inr (update st [m ! 1] False False)
         else Inr (update st m True False))
      else if rc = R_CHAR_CLASS \<and> m \<noteq> ''['' \<and> m \<noteq> ''[^'' then
        (if rtest charClassWs m \<and> (cc = CC_DEFAULT \<or> cc = CC_RANGE \<or> cc = CC_Q_TOKEN)
         then Inr (st\<lparr>ignoringCharClassWs := True\<rparr>)
         else if cc = CC_INVALID_INCOMPLETE_TOKEN then Inl (IncompleteCharClassToken m)
         else if rtest escapedCharClassWs m \<and> (cc = CC_DEFAULT \<or> cc = CC_Q_TOKEN)
         then Inr (update st [m ! 1] False False)
         else if cc = CC_DEFAULT
         then Inr (update st
                (sandboxLoneDoublePunctuatorChar U (sandboxUnsafeNulls U m None)) True False)
         else Inr (update st m True False))
      else Inr (update st m True False))"

text \<open>One turn of the loop over the tokens.\<close>

definition fxBody :: "utils \<Rightarrow> fxState \<Rightarrow> string \<Rightarrow> error + fxState" where
  "fxBody U st m =
     (if ignoringComment st then
        Inr (if m = [CHR 0x0A] then st\<lparr>ignoringComment := False, separatorNeeded := True\<rparr>
             else st)
      else if ignoringWs st \<and> rtest ws m then Inr st
      else if \<not> ignoringWs st \<and> ignoringCharClassWs st \<and> rtest charClassWs m then Inr st
      else
        let st1 = (if ignoringWs st then st\<lparr>ignoringWs := False, separatorNeeded := True\<rparr>
                   else if ignoringCharClassWs st then st\<lparr>ignoringCharClassWs := False\<rparr>
                   else st);
            expression = fx_expression st1 @ m;
            running = getEndContextForIncompleteExpression U expression (fx_runningContext st1);
            rc = regexContext running;
            cc = charClassContext running;
            st2 = st1\<lparr>fx_expression := expression, fx_runningContext := Some running\<rparr>
        in if m = ''-'' \<and> rc = R_CHAR_CLASS \<and>
              lastSignificantCharClassContext st2 = Some CC_RANGE
           then Inl InvalidRangeHyphen
           else (case fxToken U st2 m rc cc of
                   Inl e \<Rightarrow> Inl e
                 | Inr st3 \<Rightarrow>
                     Inr (if \<not> (ignoringWs st3 \<or> ignoringCharClassWs st3 \<or> ignoringComment st3)
                          then st3\<lparr>lastSignificantToken := m,
                                   lastSignificantCharClassContext := Some cc\<rparr>
                          else st3)))"

fun fxLoop :: "utils \<Rightarrow> fxState \<Rightarrow> string list \<Rightarrow> error + fxState" where
  "fxLoop U st [] = Inr st"
| "fxLoop U st (m # rest) =
     (case fxBody U st m of Inl e \<Rightarrow> Inl e | Inr st' \<Rightarrow> fxLoop U st' rest)"

definition fxInit :: "runningContext option \<Rightarrow> fxState" where
  "fxInit running =
     \<lparr>ignoringWs = False, ignoringCharClassWs = False, ignoringComment = False,
      fx_expression = [], transformed = [], lastSignificantToken = [],
      lastSignificantCharClassContext = None, separatorNeeded = False,
      fx_runningContext = running\<rparr>"

definition flagXPreprocessor :: "utils \<Rightarrow> preprocessor" where
  "flagXPreprocessor U v running =
     (case fxLoop U (fxInit running) (map mtext (matchAll (token U) [] v)) of
        Inl e \<Rightarrow> Inl e
      | Inr st \<Rightarrow> Inr (transformed st, fx_runningContext st))"

section \<open>Interpolation\<close>

text \<open>
  \<^verbatim>\<open>String(value)\<close> and \<^verbatim>\<open>value.toString(16)\<close> of an integer: the digits in
  the radix, after a minus sign when negative.
\<close>

definition digitChar :: "nat \<Rightarrow> char" where
  "digitChar d = ''0123456789abcdefghijklmnopqrstuvwxyz'' ! d"

function digitsOf :: "nat \<Rightarrow> nat \<Rightarrow> string" where
  "digitsOf radix n =
     (if n < radix \<or> radix < 2 then [digitChar n]
      else digitsOf radix (n div radix) @ [digitChar (n mod radix)])"
  by pat_completeness auto
termination
  by (relation "measure (\<lambda>(radix, n). n)") auto

declare digitsOf.simps [simp del]

definition toStringRadix :: "nat \<Rightarrow> int \<Rightarrow> string" where
  "toStringRadix radix i =
     (if i < 0 then ''-'' @ digitsOf radix (nat (- i)) else digitsOf radix (nat i))"

fun isRegExp :: "interpolatedValue \<Rightarrow> bool" where
  "isRegExp (NativeRegex src fl) = True"
| "isRegExp _ = False"

fun isPattern :: "interpolatedValue \<Rightarrow> bool" where
  "isPattern (TrustedPattern p) = True"
| "isPattern _ = False"

fun isNumber :: "interpolatedValue \<Rightarrow> bool" where
  "isNumber (Number n) = True"
| "isNumber _ = False"

text \<open>\<^verbatim>\<open>String(value)\<close> of a value that is not a \<^verbatim>\<open>RegExp\<close>; a number that takes
  the hexadecimal branch reads its own text in radix 16.\<close>

fun stringOf :: "interpolatedValue \<Rightarrow> string" where
  "stringOf (PlainText t) = t"
| "stringOf (TrustedPattern p) = p"
| "stringOf (Number n) = toStringRadix 10 n"
| "stringOf (NativeRegex src fl) = src"

fun hexOf :: "interpolatedValue \<Rightarrow> string" where
  "hexOf (Number n) = toStringRadix 16 n"
| "hexOf v = stringOf v"

text \<open>\<^verbatim>\<open>transformForLocalFlags\<close>; the regex is its source and its flags.\<close>

record transformedRe =
  t_value :: string
  usedModifier :: bool

definition newlines :: string where
  "newlines = bs # ''n'' @ bs # ''r'' @ bs # ''u2028'' @ bs # ''u2029''"

definition modFlag :: "bool \<Rightarrow> bool \<Rightarrow> bool option" where
  "modFlag local outer = (if local \<noteq> outer then Some local else None)"

definition transformForLocalFlags :: "utils \<Rightarrow> string \<Rightarrow> string \<Rightarrow> string \<Rightarrow>
    error + transformedRe" where
  "transformForLocalFlags U source reFlags outerFlags =
     (let ignoreCase = CHR ''i'' \<in> set reFlags;
          dotAll = CHR ''s'' \<in> set reFlags;
          multiline = CHR ''m'' \<in> set reFlags;
          outerI = CHR ''i'' \<in> set outerFlags;
          outerS = CHR ''s'' \<in> set outerFlags;
          outerM = CHR ''m'' \<in> set outerFlags
      in if ignoreCase \<noteq> outerI \<and> \<not> patternModsSupported U then Inl ModifiersNotSupported
         else if patternModsSupported U then
           (let keys = [(''i'', modFlag ignoreCase outerI), (''m'', modFlag multiline outerM),
                        (''s'', modFlag dotAll outerS)];
                modOn = concat (map fst (filter (\<lambda>k. snd k = Some True) keys));
                modOff = concat (map fst (filter (\<lambda>k. snd k = Some False) keys));
                modifier = modOn @ (if modOff \<noteq> [] then ''-'' @ modOff else [])
            in if modifier \<noteq> []
               then Inr \<lparr>t_value = ''(?'' @ modifier @ '':'' @ source @ '')'',
                         usedModifier = True\<rparr>
               else Inr \<lparr>t_value = source, usedModifier = False\<rparr>)
         else
           (let v1 = (if dotAll \<noteq> outerS
                      then replaceUnescaped source (Chr CHR ''.'')
                             (if dotAll then ''[^]'' else ''[^'' @ newlines @ '']'')
                             (Some Ctx_DEFAULT)
                      else source);
                v2 = (if multiline \<noteq> outerM
                      then replaceUnescaped
                             (replaceUnescaped v1 (Chr CHR ''^'')
                                (if multiline then ''(?<=^|['' @ newlines @ ''])''
                                 else ''(?<![^])'')
                                (Some Ctx_DEFAULT))
                             (Chr CHR ''$'')
                             (if multiline then ''(?=$|['' @ newlines @ ''])'' else ''(?![^])'')
                             (Some Ctx_DEFAULT)
                      else v1)
            in Inr \<lparr>t_value = v2, usedModifier = False\<rparr>))"

text \<open>\<^verbatim>\<open>'^-|^&&|-$|&&$'\<close>\<close>

definition boundaryOperator :: re where
  "boundaryOperator =
     Alt (Seq Bos (Chr CHR ''-'')) (Alt (Seq Bos (lit ''&&''))
    (Alt (Seq (Chr CHR ''-'') Eos) (Seq (lit ''&&'') Eos)))"

definition nonCapturing :: "string \<Rightarrow> string" where
  "nonCapturing v = ''(?:'' @ v @ '')''"

definition nestedClass :: "string \<Rightarrow> string" where
  "nestedClass v = ''['' @ v @ '']''"

definition enclosedPosition :: "utils \<Rightarrow> regexContext \<Rightarrow> charClassContext \<Rightarrow> bool" where
  "enclosedPosition U rc cc =
     (rc = R_INTERVAL_QUANTIFIER \<or> rc = R_GROUP_NAME \<or>
      rc \<in> set (enclosedTokenRegexContexts U) \<or>
      cc \<in> set (enclosedTokenCharClassContexts U))"

definition interpolate :: "utils \<Rightarrow> interpolatedValue \<Rightarrow> string \<Rightarrow> regexContext \<Rightarrow>
    charClassContext \<Rightarrow> bool \<Rightarrow> nat \<Rightarrow> error + string" where
  "interpolate U v outerFlags rc cc wrapEscapedStr precedingCaptures =
     (if isRegExp v \<and> rc \<noteq> R_DEFAULT then Inl RegExpContextMismatch
      else if rc = R_INVALID_INCOMPLETE_TOKEN \<or> cc = CC_INVALID_INCOMPLETE_TOKEN
      then Inl PrecededByIncompleteToken
      else if isNumber v \<and> (rc = R_ENCLOSED_U \<or> cc = CC_ENCLOSED_U) then Inr (hexOf v)
      else
        let str = stringOf v;
            escapedValue =
              (if isRegExp v \<or> isPattern v then []
               else escapeV U str (if rc = R_CHAR_CLASS then Ctx_CHAR_CLASS else Ctx_DEFAULT));
            breakoutChar =
              (if isRegExp v then []
               else getBreakoutChar U (if escapedValue \<noteq> [] then escapedValue else str) rc cc)
        in if breakoutChar \<noteq> [] then Inl (StrayBreakoutChar breakoutChar)
           else if enclosedPosition U rc cc
           then Inr (if isPattern v then str else escapedValue)
           else if rc = R_CHAR_CLASS then
             (if isPattern v then
                (if hasUnescaped str boundaryOperator None then Inl BoundaryOperator
                 else
                   let sandboxedValue =
                         sandboxLoneCharClassCaret U (sandboxLoneDoublePunctuatorChar U str)
                   in Inr (if containsCharClassUnion U str then nestedClass sandboxedValue
                           else sandboxUnsafeNulls U sandboxedValue None))
              else Inr (if containsCharClassUnion U escapedValue then nestedClass escapedValue
                        else escapedValue))
           else
             (case v of
                NativeRegex source reFlags \<Rightarrow>
                  (case transformForLocalFlags U source reFlags outerFlags of
                     Inl e \<Rightarrow> Inl e
                   | Inr t \<Rightarrow>
                       let backrefsAdjusted =
                             adjustNumberedBackrefs U (t_value t) precedingCaptures
                       in Inr (if usedModifier t then backrefsAdjusted
                               else nonCapturing backrefsAdjusted))
              | _ \<Rightarrow>
                  if isPattern v then Inr (nonCapturing str)
                  else Inr (if wrapEscapedStr then nonCapturing escapedValue
                            else escapedValue)))"

section \<open>The template tag\<close>

text \<open>
  Modelled from the spec: \<^verbatim>\<open>preprocess\<close> of utils.js, which is not among the sources.
  A preprocessor rewrites one literal segment at a time and carries the running
  context across the segment boundaries; it is applied to the literal segments and to
  interpolated patterns, not to interpolated regexes or strings. Every call starts
  reading its own text at position 0.
\<close>

definition resetLastPos :: "runningContext option \<Rightarrow> runningContext option" where
  "resetLastPos running = map_option (\<lambda>r. r\<lparr>lastPos := 0\<rparr>) running"

fun preprocessLoop :: "preprocessor \<Rightarrow> interpolatedValue list \<Rightarrow> nat \<Rightarrow> string list \<Rightarrow>
    runningContext option \<Rightarrow> error + (string list \<times> interpolatedValue list)" where
  "preprocessLoop pp subs i [] running = Inr ([], [])"
| "preprocessLoop pp subs i (raw # rest) running =
     (case pp raw (resetLastPos running) of
        Inl e \<Rightarrow> Inl e
      | Inr (t, running1) \<Rightarrow>
          if rest \<noteq> [] \<and> i < length subs then
            (case subs ! i of
               TrustedPattern p \<Rightarrow>
                 (case pp p (resetLastPos running1) of
                    Inl e \<Rightarrow> Inl e
                  | Inr (tp, running2) \<Rightarrow>
                      (case preprocessLoop pp subs (Suc i) rest running2 of
                         Inl e \<Rightarrow> Inl e
                       | Inr (ts, ss) \<Rightarrow> Inr (t # ts, TrustedPattern tp # ss)))
             | v \<Rightarrow>
                 (case preprocessLoop pp subs (Suc i) rest running1 of
                    Inl e \<Rightarrow> Inl e
                  | Inr (ts, ss) \<Rightarrow> Inr (t # ts, v # ss)))
          else
            (case preprocessLoop pp subs (Suc i) rest running1 of
               Inl e \<Rightarrow> Inl e
             | Inr (ts, ss) \<Rightarrow> Inr (t # ts, ss)))"

definition preprocess :: "string list \<Rightarrow> interpolatedValue list \<Rightarrow> preprocessor \<Rightarrow>
    error + (string list \<times> interpolatedValue list)" where
  "preprocess template substitutions pp = preprocessLoop pp substitutions 0 template None"

fun applyPreprocessors :: "preprocessor list \<Rightarrow> string list \<Rightarrow> interpolatedValue list \<Rightarrow>
    error + (string list \<times> interpolatedValue list)" where
  "applyPreprocessors [] template substitutions = Inr (template, substitutions)"
| "applyPreprocessors (pp # pps) template substitutions =
     (case preprocess template substitutions pp of
        Inl e \<Rightarrow> Inl e
      | Inr (t, s) \<Rightarrow> applyPreprocessors pps t s)"

definition handlePreprocessors :: "utils \<Rightarrow> stages \<Rightarrow> string list \<Rightarrow>
    interpolatedValue list \<Rightarrow> options \<Rightarrow> error + (string list \<times> interpolatedValue list)" where
  "handlePreprocessors U S template substitutions opts =
     applyPreprocessors
       ((if dis_x (disable opts) then [] else [flagXPreprocessor U]) @
        (if dis_n (disable opts) then [] else [flagNPreprocessor S]))
       template substitutions"

fun applyPlugins :: "plugin list \<Rightarrow> pluginData \<Rightarrow> string \<Rightarrow> error + string" where
  "applyPlugins [] d expression = Inr expression"
| "applyPlugins (p # ps) d expression =
     (case p expression d of Inl e \<Rightarrow> Inl e | Inr expression' \<Rightarrow> applyPlugins ps d expression')"

definition pluginList :: "utils \<Rightarrow> stages \<Rightarrow> options \<Rightarrow> plugin list" where
  "pluginList U S opts =
     plugins opts @
     (if dis_subroutines (disable opts) then [] else [subroutinesPlugin S]) @
     (if dis_atomic (disable opts) then [] else [possessivePlugin S, atomicPlugin S]) @
     (if dis_x (disable opts) then [] else [\<lambda>expression d. Inr (cleanPlugin U expression)]) @
     (case unicodeSetsPlugin opts of None \<Rightarrow> [] | Some p \<Rightarrow> [p])"

definition handlePlugins :: "utils \<Rightarrow> stages \<Rightarrow> string \<Rightarrow> options \<Rightarrow> error + string" where
  "handlePlugins U S expression opts =
     applyPlugins (pluginList U S opts)
       \<lparr>pd_flags = flags opts, useEmulationGroups = subclass_opt opts\<rparr> expression"

text \<open>The variables that the loop of \<^verbatim>\<open>regexFromTemplate\<close> updates.\<close>

record rftState =
  precedingCaptures :: nat
  rft_expression :: string
  rft_runningContext :: "runningContext option"

text \<open>
  \<^verbatim>\<open>prepped.substitutions[i]\<close>: beyond the end it is \<^verbatim>\<open>undefined\<close>, which is
  neither a regex, a pattern nor a number and reads as the text \<^verbatim>\<open>undefined\<close>.
\<close>

definition subAt :: "interpolatedValue list \<Rightarrow> nat \<Rightarrow> interpolatedValue" where
  "subAt subs i = (if i < length subs then subs ! i else PlainText ''undefined'')"

fun capturesOf :: "utils \<Rightarrow> interpolatedValue \<Rightarrow> nat" where
  "capturesOf U (NativeRegex source reFlags) = countCaptures U source"
| "capturesOf U (TrustedPattern p) = countCaptures U p"
| "capturesOf U _ = 0"

definition rftBody :: "utils \<Rightarrow> string \<Rightarrow> string list \<Rightarrow> interpolatedValue list \<Rightarrow> nat \<Rightarrow>
    string \<Rightarrow> rftState \<Rightarrow> error + rftState" where
  "rftBody U outerFlags raws subs i raw st =
     (let wrapEscapedStr = (raw \<noteq> [] \<or> (Suc i < length raws \<and> raws ! Suc i \<noteq> []));
          pc = precedingCaptures st + countCaptures U raw;
          expression = rft_expression st @ sandboxUnsafeNulls U raw (Some Ctx_CHAR_CLASS);
          running = getEndContextForIncompleteExpression U expression (rft_runningContext st)
      in if Suc i < length raws then
           (let substitution = subAt subs i in
            case interpolate U substitution outerFlags (regexContext running)
                   (charClassContext running) wrapEscapedStr pc of
              Inl e \<Rightarrow> Inl e
            | Inr fragment \<Rightarrow>
                Inr \<lparr>precedingCaptures = pc + capturesOf U substitution,
                     rft_expression = expression @ fragment,
                     rft_runningContext = Some running\<rparr>)
         else Inr \<lparr>precedingCaptures = pc, rft_expression = expression,
                   rft_runningContext = Some running\<rparr>)"

fun rftLoop :: "utils \<Rightarrow> string \<Rightarrow> string list \<Rightarrow> interpolatedValue list \<Rightarrow> nat \<Rightarrow>
    string list \<Rightarrow> rftState \<Rightarrow> error + rftState" where
  "rftLoop U outerFlags raws subs i [] st = Inr st"
| "rftLoop U outerFlags raws subs i (raw # rest) st =
     (case rftBody U outerFlags raws subs i raw st of
        Inl e \<Rightarrow> Inl e
      | Inr st' \<Rightarrow> rftLoop U outerFlags raws subs (Suc i) rest st')"

definition rftInit :: rftState where
  "rftInit = \<lparr>precedingCaptures = 0, rft_expression = [], rft_runningContext = None\<rparr>"

text \<open>
  What \<^verbatim>\<open>regexFromTemplate\<close> hands to a constructor: \<^verbatim>\<open>new RegExp(expression,
  flags)\<close> or \<^verbatim>\<open>new WrappedRegExp(expression, flags, {captureMap})\<close>. The native
  constructor itself, which rejects an invalid pattern, is outside the model.
\<close>

datatype compiled =
    RegExpOf string string
  | WrappedRegExpOf wrappedRegExp

definition regexFromTemplate :: "utils \<Rightarrow> stages \<Rightarrow> regexTagOptions \<Rightarrow> string list \<Rightarrow>
    interpolatedValue list \<Rightarrow> error + compiled" where
  "regexFromTemplate U S opt template substitutions =
     (case getOptions (flagVSupported U) (backcompatPlugin S) opt of
        Inl e \<Rightarrow> Inl e
      | Inr opts \<Rightarrow>
          (case handlePreprocessors U S template substitutions opts of
             Inl e \<Rightarrow> Inl e
           | Inr (raws, subs) \<Rightarrow>
               (case rftLoop U (flags opts) raws subs 0 raws rftInit of
                  Inl e \<Rightarrow> Inl e
                | Inr st \<Rightarrow>
                    (case handlePlugins U S (rft_expression st) opts of
                       Inl e \<Rightarrow> Inl e
                     | Inr expression \<Rightarrow>
                         if subclass_opt opts then
                           (let unmarked = unmarkEmulationGroups U expression in
                            Inr (WrappedRegExpOf
                                  \<lparr>w_source = um_expression unmarked, w_flags = flags opts,
                                   w_captureMap = Some (um_captureMap unmarked)\<rparr>))
                         else Inr (RegExpOf expression (flags opts))))))"

text \<open>\<^verbatim>\<open>rewrite\<close>: the processed expression and the flags as strings.\<close>

definition rewrite :: "utils \<Rightarrow> stages \<Rightarrow> string \<Rightarrow> regexTagOptions \<Rightarrow>
    error + (string \<times> string)" where
  "rewrite U S expression opt =
     (case getOptions (flagVSupported U) (backcompatPlugin S) opt of
        Inl e \<Rightarrow> Inl e
      | Inr opts \<Rightarrow>
          if subclass_opt opts then Inl CannotUseSubclass
          else
            (case handlePreprocessors U S [expression] [] opts of
               Inl e \<Rightarrow> Inl e
             | Inr (raws, subs) \<Rightarrow>
                 (case handlePlugins U S (hd raws) opts of
                    Inl e \<Rightarrow> Inl e
                  | Inr expression' \<Rightarrow> Inr (expression', flags opts))))"

section \<open>A reading of utils.js, for evaluation on concrete inputs\<close>

text \<open>
  Modelled from the spec: the constants of utils.js, which is not among the sources.
  A capturing-group opening delimiter is \<^verbatim>\<open>(\<close> not followed by \<^verbatim>\<open>?\<close>, or the opener
  of a named group \<^verbatim>\<open>(?<name>\<close>; the other group openers are non-capturing,
  lookaround, flag-modifier or the reserved \<^verbatim>\<open>(?(DEFINE)\<close>; the enclosed-token
  contexts are those inside \<^verbatim>\<open>\p{...}\<close> and \<^verbatim>\<open>\u{...}\<close>.
\<close>

definition capturingDelimSpec :: re where
  "capturingDelimSpec =
     Seq (Chr CHR ''('')
         (Alt (NAhead (Chr CHR ''?''))
              (Seq (lit ''?<'') (Seq (NAhead (Cls ''=!''))
                   (Seq (Plus (NCls ''>'')) (Chr CHR ''>'')))))"

definition noncapturingDelimSpec :: re where
  "noncapturingDelimSpec =
     Seq (lit ''(?'')
         (Alt (Cls ('':=!>'' @ letterChars @ ''-''))
         (Alt (Seq (Chr CHR ''<'') (Cls ''=!'')) (lit ''(DEFINE)'')))"

definition markerSpec :: string where
  "markerSpec = ''$E$''"

definition doublePunctuatorCharsSpec :: string where
  "doublePunctuatorCharsSpec = ''&!#$%*+,.:;<=>?@^`~''"

text \<open>
  Modelled from the spec: \<^verbatim>\<open>escapeV\<close> of utils.js. It puts a backslash before every
  character with a meaning of its own: for class safety in a character class, for
  literal safety elsewhere.
\<close>

definition escapeChars :: "string \<Rightarrow> string \<Rightarrow> string" where
  "escapeChars special str = concat (map (\<lambda>c. if c \<in> set special then [bs, c] else [c]) str)"

definition escapeVSpec :: "string \<Rightarrow> ruContext \<Rightarrow> string" where
  "escapeVSpec str ctx =
     (if ctx = Ctx_CHAR_CLASS
      then escapeChars (''()[]{}|/-'' @ [bs] @ doublePunctuatorCharsSpec) str
      else escapeChars (''()[]{}|^$*+?.'' @ [bs]) str)"

text \<open>
  Modelled from the spec: \<^verbatim>\<open>getBreakoutChar\<close> of utils.js. With the escaped
  characters removed, a character is stray when it would act outside the interpolated
  value: a trailing backslash, an unbalanced parenthesis or bracket, or the character
  that closes the enclosing token.
\<close>

fun removeEscapes :: "string \<Rightarrow> string" where
  "removeEscapes [] = []"
| "removeEscapes [c] = [c]"
| "removeEscapes (c # d # rest) =
     (if c = bs then removeEscapes rest else c # removeEscapes (d # rest))"

fun getUnbalancedChar :: "char \<Rightarrow> char \<Rightarrow> nat \<Rightarrow> string \<Rightarrow> string" where
  "getUnbalancedChar l r numOpen [] = (if 0 < numOpen then [l] else [])"
| "getUnbalancedChar l r numOpen (c # rest) =
     (if c = l then getUnbalancedChar l r (Suc numOpen) rest
      else if c = r then (if numOpen = 0 then [r] else getUnbalancedChar l r (numOpen - 1) rest)
      else getUnbalancedChar l r numOpen rest)"

definition getBreakoutCharSpec :: "string \<Rightarrow> regexContext \<Rightarrow> charClassContext \<Rightarrow> string" where
  "getBreakoutCharSpec expression rc cc =
     (let escapesRemoved = removeEscapes expression;
          enclosedCC = (cc = CC_ENCLOSED_P \<or> cc = CC_ENCLOSED_U)
      in if escapesRemoved \<noteq> [] \<and> last escapesRemoved = bs then [bs]
         else if rc = R_DEFAULT then getUnbalancedChar CHR ''('' CHR '')'' 0 escapesRemoved
         else if rc = R_CHAR_CLASS \<and> \<not> enclosedCC
         then getUnbalancedChar CHR ''['' CHR '']'' 0 escapesRemoved
         else if rc = R_INTERVAL_QUANTIFIER \<or> rc = R_ENCLOSED_P \<or> rc = R_ENCLOSED_U \<or> enclosedCC
         then (if CHR ''}'' \<in> set escapesRemoved then ''}'' else [])
         else if rc = R_GROUP_NAME
         then (if CHR ''>'' \<in> set escapesRemoved then ''>'' else [])
         else [])"

text \<open>
  Modelled from the spec: \<^verbatim>\<open>containsCharClassUnion\<close> of utils.js: whether the text
  would parse as more than one class element. An escape is one element, a range or a
  set operation joins its operands into one, \<^verbatim>\<open>\q\<close> is a union by itself, and two
  elements in a row, or an element next to a nested class, are an implicit union.
\<close>

definition charClassUnionToken :: re where
  "charClassUnionToken =
     Alt (Seq (Chr bs)
            (Alt (Seq (Chr CHR ''c'') (Cls letterChars))
            (Alt (Seq (Cls ''pP'') (Seq (Chr CHR ''{'') (Seq (Plus (NCls ''}'')) (Chr CHR ''}''))))
            (Alt (Grp ''qStrProp'' (Chr CHR ''q''))
            (Alt (Seq (Chr CHR ''u'')
                      (Alt (Times 4 (Cls hexChars))
                           (Seq (Chr CHR ''{'') (Seq (Plus (Cls hexChars)) (Chr CHR ''}'')))))
            (Alt (Seq (Chr CHR ''x'') (Times 2 (Cls hexChars)))
                 Dot))))))
    (Alt (lit ''--'') (Alt (lit ''&&'') Dot))"

fun unionLoop :: "bool \<Rightarrow> string \<Rightarrow> rmatch list \<Rightarrow> bool" where
  "unionLoop hasFirst lastM [] = False"
| "unionLoop hasFirst lastM (mt # rest) =
     (let m = mtext mt in
      if map_of (mgroups mt) ''qStrProp'' \<noteq> None then True
      else if m = ''['' \<and> hasFirst then True
      else if m \<in> {''-'', ''--'', ''&&''} then unionLoop False m rest
      else if m \<noteq> ''['' \<and> m \<noteq> '']''
      then (if hasFirst \<or> lastM = '']'' then True else unionLoop True m rest)
      else unionLoop hasFirst m rest)"

definition containsCharClassUnionSpec :: "string \<Rightarrow> bool" where
  "containsCharClassUnionSpec charClassPattern =
     unionLoop False [] (matchAll charClassUnionToken [] charClassPattern)"

text \<open>
  Modelled from the spec: \<^verbatim>\<open>countCaptures\<close> and \<^verbatim>\<open>adjustNumberedBackrefs\<close> of
  utils.js: the capturing-group opening delimiters outside character classes are
  counted, and every numbered backreference \<^verbatim>\<open>\N\<close> outside character classes is
  shifted by the count of the preceding captures.
\<close>

definition countCapturesSpec :: "string \<Rightarrow> nat" where
  "countCapturesSpec expression =
     snd (replaceUnescapedSt expression capturingDelimSpec (\<lambda>mt num. (mtext mt, Suc num))
            (Some Ctx_DEFAULT) 0)"

definition numberedBackref :: re where
  "numberedBackref = Seq (Chr bs) (Grp ''num'' (Seq (Cls ''123456789'') (Star (Cls digitChars))))"

definition digitValue :: "char \<Rightarrow> nat" where
  "digitValue c = of_char c - of_char CHR ''0''"

definition natOfDigits :: "string \<Rightarrow> nat" where
  "natOfDigits ds = foldl (\<lambda>n c. 10 * n + digitValue c) 0 ds"

definition adjustNumberedBackrefsSpec :: "string \<Rightarrow> nat \<Rightarrow> string" where
  "adjustNumberedBackrefsSpec expression preceding =
     fst (replaceUnescapedSt expression numberedBackref
            (\<lambda>mt st. (bs # digitsOf 10
                        (natOfDigits (case map_of (mgroups mt) ''num'' of None \<Rightarrow> []
                                      | Some num \<Rightarrow> num) + preceding), st))
            (Some Ctx_DEFAULT) ())"

text \<open>
  Modelled from the spec: the sandboxing helpers of utils.js. \<^verbatim>\<open>\0\<close> not followed by
  a digit becomes \<^verbatim>\<open>\x00\<close> in the given context; a caret or a lone double-punctuator
  character at the start of the text is escaped, and repeated unless it is the whole
  text.
\<close>

definition sandboxUnsafeNullsSpec :: "string \<Rightarrow> ruContext option \<Rightarrow> string" where
  "sandboxUnsafeNullsSpec str ctx =
     replaceUnescaped str (Seq (Chr bs) (Seq (Chr CHR ''0'') (NAhead (Cls digitChars))))
       (bs # ''x00'') ctx"

definition sandboxLoneCharClassCaretSpec :: "string \<Rightarrow> string" where
  "sandboxLoneCharClassCaretSpec str =
     (case str of c # rest \<Rightarrow> if c = CHR ''^'' then bs # ''^^'' @ rest else str | [] \<Rightarrow> str)"

definition sandboxLoneDoublePunctuatorCharSpec :: "string \<Rightarrow> string" where
  "sandboxLoneDoublePunctuatorCharSpec str =
     (case str of
        [] \<Rightarrow> str
      | c # rest \<Rightarrow>
          if c \<in> set doublePunctuatorCharsSpec \<and> take 1 rest \<noteq> [c]
          then bs # c # (if rest = [] then [] else [c]) @ rest
          else str)"

text \<open>
  Modelled from the spec: \<^verbatim>\<open>getEndContextForIncompleteExpression\<close> of utils.js, the
  context tracker. It reads the new text token by token from \<^verbatim>\<open>lastPos\<close> on,
  without lookahead beyond the token: a bracket opens or closes a character class, a
  hyphen in a class starts the context \<^verbatim>\<open>RANGE\<close> that the next token ends, the
  openers of enclosed tokens, group names and interval quantifiers start their
  contexts and the closing character ends them, and a token that the text ends in the
  middle of is invalid.
\<close>

definition contextToken :: re where
  "contextToken =
     Alt (Grp ''groupN'' (Alt (Seq (lit ''(?<'') (NAhead (Cls ''=!'')))
                              (Seq (Chr bs) (Seq (Cls ''gk'') (Chr CHR ''<'')))))
    (Alt (Grp ''enclosedP'' (Seq (Chr bs) (Seq (Cls ''pP'') (Chr CHR ''{''))))
    (Alt (Grp ''enclosedU'' (Seq (Chr bs) (lit ''u{'')))
    (Alt (Grp ''enclosedQ'' (Seq (Chr bs) (lit ''q{'')))
    (Alt (Grp ''intervalQ'' (Chr CHR ''{''))
    (Alt (Grp ''incompleteT''
           (Seq (Chr bs)
              (Alt Eos
              (Alt (Seq (Chr CHR ''c'') (NAhead (Cls letterChars)))
              (Alt (Seq (Chr CHR ''u'')
                        (Seq (NAhead (Times 4 (Cls hexChars)))
                             (Opt (Seq (Cls hexChars) (Opt (Seq (Cls hexChars)
                                  (Opt (Cls hexChars))))))))
                   (Seq (Chr CHR ''x'')
                        (Seq (NAhead (Times 2 (Cls hexChars))) (Opt (Cls hexChars)))))))))
    (Alt (lit ''--'') (Seq (Opt (Chr bs)) Dot)))))))"

definition ctxStep :: "runningContext \<Rightarrow> rmatch \<Rightarrow> runningContext" where
  "ctxStep r mt =
     (let m = mtext mt;
          has = (\<lambda>name. map_of (mgroups mt) name \<noteq> None);
          rc = regexContext r;
          cc = charClassContext r
      in if m = ''['' then
           r\<lparr>regexContext := R_CHAR_CLASS, charClassContext := CC_DEFAULT,
             charClassDepth := Suc (charClassDepth r)\<rparr>
         else if m = '']'' \<and> rc = R_CHAR_CLASS then
           r\<lparr>regexContext := (if charClassDepth r - 1 = 0 then R_DEFAULT else rc),
             charClassContext := CC_DEFAULT, charClassDepth := charClassDepth r - 1\<rparr>
         else if rc = R_CHAR_CLASS then
           r\<lparr>charClassContext :=
               (if has ''incompleteT'' then CC_INVALID_INCOMPLETE_TOKEN
                else if m = ''-'' then CC_RANGE
                else if has ''enclosedP'' then CC_ENCLOSED_P
                else if has ''enclosedU'' then CC_ENCLOSED_U
                else if has ''enclosedQ'' then CC_Q_TOKEN
                else if (m = ''}'' \<and> (cc = CC_ENCLOSED_P \<or> cc = CC_ENCLOSED_U \<or> cc = CC_Q_TOKEN)) \<or>
                        cc = CC_INVALID_INCOMPLETE_TOKEN \<or> cc = CC_RANGE
                then CC_DEFAULT else cc)\<rparr>
         else
           r\<lparr>regexContext :=
               (if has ''incompleteT'' then R_INVALID_INCOMPLETE_TOKEN
                else if has ''groupN'' then R_GROUP_NAME
                else if has ''enclosedP'' then R_ENCLOSED_P
                else if has ''enclosedU'' then R_ENCLOSED_U
                else if has ''intervalQ'' then R_INTERVAL_QUANTIFIER
                else if (m = ''>'' \<and> rc = R_GROUP_NAME) \<or>
                        (m = ''}'' \<and> (rc = R_ENCLOSED_P \<or> rc = R_ENCLOSED_U \<or>
                                     rc = R_INTERVAL_QUANTIFIER)) \<or>
                        rc = R_INVALID_INCOMPLETE_TOKEN
                then R_DEFAULT else rc)\<rparr>)"

definition initialContext :: runningContext where
  "initialContext = \<lparr>regexContext = R_DEFAULT, charClassContext = CC_DEFAULT,
     charClassDepth = 0, lastPos = 0\<rparr>"

definition getEndContextSpec :: "string \<Rightarrow> runningContext option \<Rightarrow> runningContext" where
  "getEndContextSpec incompleteExpression running =
     (let r0 = (case running of None \<Rightarrow> initialContext | Some r \<Rightarrow> r);
          r1 = foldl ctxStep r0
                 (matchAll contextToken (rev (take (lastPos r0) incompleteExpression))
                    (drop (lastPos r0) incompleteExpression))
      in r1\<lparr>lastPos := length incompleteExpression\<rparr>)"

definition utilsSpec :: utils where
  "utilsSpec =
     \<lparr>capturingDelim = capturingDelimSpec,
      noncapturingDelim = noncapturingDelimSpec,
      emulationGroupMarker = markerSpec,
      doublePunctuatorChars = doublePunctuatorCharsSpec,
      flagVSupported = True,
      patternModsSupported = False,
      enclosedTokenRegexContexts = [R_ENCLOSED_P, R_ENCLOSED_U],
      enclosedTokenCharClassContexts = [CC_ENCLOSED_P, CC_ENCLOSED_U],
      adjustNumberedBackrefs = adjustNumberedBackrefsSpec,
      containsCharClassUnion = containsCharClassUnionSpec,
      countCaptures = countCapturesSpec,
      escapeV = escapeVSpec,
      getBreakoutChar = getBreakoutCharSpec,
      getEndContextForIncompleteExpression = getEndContextSpec,
      sandboxLoneCharClassCaret = sandboxLoneCharClassCaretSpec,
      sandboxLoneDoublePunctuatorChar = sandboxLoneDoublePunctuatorCharSpec,
      sandboxUnsafeNulls = sandboxUnsafeNullsSpec\<rparr>"

text \<open>
  The stages of the other files are outside the sources and outside the spec; where
  a concrete pipeline is evaluated they are switched off by the options, and these
  stand-ins, which leave their input alone, fill the record.
\<close>

definition idleStages :: stages where
  "idleStages =
     \<lparr>flagNPreprocessor = (\<lambda>v running. Inr (v, running)),
      possessivePlugin = (\<lambda>expression d. Inr expression),
      atomicPlugin = (\<lambda>expression d. Inr expression),
      subroutinesPlugin = (\<lambda>expression d. Inr expression),
      backcompatPlugin = (\<lambda>expression d. Inr expression)\<rparr>"

section \<open>Concrete inputs\<close>

definition plainOptions :: regexTagOptions where
  "plainOptions =
     \<lparr>o_flags = None, o_subclass = None, o_plugins = None, o_unicodeSetsPlugin = None,
      o_disable = None, o_force = None\<rparr>"



text \<open>The state of \<^verbatim>\<open>flagXPreprocessor\<close> after the tokens \<^verbatim>\<open>[\<close>, \<^verbatim>\<open>a\<close>, \<^verbatim>\<open>-\<close>.\<close>

definition afterRangeHyphen :: fxState where
  "afterRangeHyphen =
     \<lparr>ignoringWs = False, ignoringCharClassWs = False, ignoringComment = False,
      fx_expression = ''[a-'', transformed = ''[a-'', lastSignificantToken = ''-'',
      lastSignificantCharClassContext = Some CC_RANGE, separatorNeeded = False,
      fx_runningContext = Some \<lparr>regexContext = R_CHAR_CLASS, charClassContext = CC_RANGE,
        charClassDepth = 1, lastPos = 3\<rparr>\<rparr>"


section \<open>Properties\<close>

subsection \<open>The matcher and the walk of replaceUnescaped\<close>









lemma stepChar_fwd:
  "stepChar True p (b, a, g) =
     (case a of [] \<Rightarrow> [] | x # a' \<Rightarrow> if p x then [(x # b, a', g)] else [])"
  by (cases a) auto

lemma stepChar_bwd:
  "stepChar False p (b, a, g) =
     (case b of [] \<Rightarrow> [] | x # b' \<Rightarrow> if p x then [(b', x # a, g)] else [])"
  by (cases b) auto

lemma ms_skipRe_nil: "ms True skipRe (b, [], []) = []"
  by (simp add: skipRe_def)




























subsection \<open>Options\<close>

lemma getOptions_implicit:
  "hasImplicitFlag (flags (withDefaults bp opt)) \<Longrightarrow> getOptions fv bp opt = Inl ImplicitFlags"
  by (simp add: getOptions_def Let_def)

lemma getOptions_subclass:
  "getOptions fv bp opt = Inr opts \<Longrightarrow> subclass_opt opts = subclass_opt (withDefaults bp opt)"
  by (auto simp: getOptions_def Let_def split: if_splits)

text \<open>
  C6. Whenever the flags of the options hold one of the letters \<open>n\<close>, \<open>u\<close>, \<open>v\<close>,
  \<open>x\<close>, resolving the options fails with the error about implicit flags, whatever
  the other options are, and so do both entry points, \<open>regexFromTemplate\<close> and
  \<open>rewrite\<close>, before they read the template.
\<close>

theorem implicit_flags_rejected:
  assumes "o_flags opt = Some fl" and "c \<in> set fl" and "c \<in> set ''nuvx''"
  shows "getOptions fv bp opt = Inl ImplicitFlags \<and>
         regexFromTemplate U S opt template substitutions = Inl ImplicitFlags \<and>
         rewrite U S expression opt = Inl ImplicitFlags"
proof -
  have "hasImplicitFlag (flags (withDefaults bp' opt))" for bp'
    using assms unfolding hasImplicitFlag_def withDefaults_def by auto
  then have "getOptions fv' bp' opt = Inl ImplicitFlags" for fv' bp'
    by (rule getOptions_implicit)
  then show ?thesis
    by (simp add: regexFromTemplate_def rewrite_def)
qed

theorem implicit_flags_rejected_witness:
  "o_flags (plainOptions\<lparr>o_flags := Some ''ivm''\<rparr>) = Some ''ivm'' \<and>
   CHR ''v'' \<in> set ''ivm'' \<and> CHR ''v'' \<in> set ''nuvx'' \<and>
   getOptions True (backcompatPlugin idleStages) (plainOptions\<lparr>o_flags := Some ''ivm''\<rparr>)
     = Inl ImplicitFlags \<and>
   regexFromTemplate utilsSpec idleStages (plainOptions\<lparr>o_flags := Some ''ivm''\<rparr>) [''a''] []
     = Inl ImplicitFlags \<and>
   rewrite utilsSpec idleStages ''a'' (plainOptions\<lparr>o_flags := Some ''ivm''\<rparr>)
     = Inl ImplicitFlags"
  using implicit_flags_rejected [of "plainOptions\<lparr>o_flags := Some ''ivm''\<rparr>" "''ivm''"
      "CHR ''v''" True "backcompatPlugin idleStages" utilsSpec idleStages "[''a'']" "[]" "''a''"]
  by simp

text \<open>
  C10. With \<open>subclass: true\<close> in its options, \<open>rewrite\<close> returns an error for every
  expression: the error about implicit flags when the flags hold one of them, the
  error about the option subclass otherwise. No pair of expression and flags comes
  out.
\<close>

theorem rewrite_rejects_subclass:
  assumes "o_subclass opt = Some True"
  shows "rewrite U S expression opt =
           Inl (if hasImplicitFlag (case o_flags opt of None \<Rightarrow> [] | Some fl \<Rightarrow> fl)
                then ImplicitFlags else CannotUseSubclass)"
proof (cases "getOptions (flagVSupported U) (backcompatPlugin S) opt")
  case (Inl e)
  then show ?thesis
    by (auto simp: rewrite_def getOptions_def withDefaults_def Let_def split: if_splits)
next
  case (Inr opts)
  then have "subclass_opt opts"
    using assms getOptions_subclass [OF Inr] by (simp add: withDefaults_def)
  moreover have "\<not> hasImplicitFlag (case o_flags opt of None \<Rightarrow> [] | Some fl \<Rightarrow> fl)"
    using Inr by (auto simp: getOptions_def withDefaults_def Let_def split: if_splits)
  ultimately show ?thesis
    using Inr by (simp add: rewrite_def)
qed

theorem rewrite_rejects_subclass_witness:
  "o_subclass (plainOptions\<lparr>o_subclass := Some True\<rparr>) = Some True \<and>
   rewrite utilsSpec idleStages ''(a)'' (plainOptions\<lparr>o_subclass := Some True\<rparr>)
     = Inl CannotUseSubclass"
  using rewrite_rejects_subclass [of "plainOptions\<lparr>o_subclass := Some True\<rparr>"
      utilsSpec idleStages "''(a)''"]
  by (simp add: plainOptions_def hasImplicitFlag_def)

subsection \<open>Emulation groups\<close>











subsection \<open>Interpolation of one value\<close>

















subsection \<open>A template without substitutions\<close>







subsection \<open>The hyphen after a range hyphen\<close>

lemma not_ws_hyphen: "\<not> rtest ws ''-''" "\<not> rtest charClassWs ''-''"
  by code_simp+

lemma fxToken_not_hyphen_error: "fxToken U st m rc cc \<noteq> Inl InvalidRangeHyphen"
  by (simp add: fxToken_def)

lemma fxBody_hyphen:
  "fxBody U st m = Inl InvalidRangeHyphen \<longleftrightarrow>
     (\<not> ignoringComment st \<and> m = ''-'' \<and>
      regexContext (getEndContextForIncompleteExpression U (fx_expression st @ m)
                      (fx_runningContext st)) = R_CHAR_CLASS \<and>
      lastSignificantCharClassContext st = Some CC_RANGE)"
proof (cases "m = ''-''")
  case True
  then show ?thesis
    using fxToken_not_hyphen_error
    by (auto simp: fxBody_def Let_def not_ws_hyphen split: sum.splits)
next
  case False
  then show ?thesis
    using fxToken_not_hyphen_error
    by (auto simp: fxBody_def Let_def split: sum.splits)
qed

lemma afterRangeHyphen_reached:
  "fxLoop utilsSpec (fxInit None) [''['', ''a'', ''-''] = Inr afterRangeHyphen"
  by code_simp

text \<open>
  C7, as the code has it. A turn of the loop raises the error about the hyphen
  exactly when it is not inside a comment, the token is \<^verbatim>\<open>-\<close>, the context after it
  is a character class, and the character-class context recorded at the last
  significant token is \<^verbatim>\<open>RANGE\<close>. With the context tracker as the spec describes it
  that is a hyphen that follows a range hyphen across stripped whitespace:
  \<^verbatim>\<open>[a- -z]\<close> raises, \<^verbatim>\<open>[a-z]\<close> compiles to itself.
\<close>

theorem range_hyphen_error:
  "(fxBody U st m = Inl InvalidRangeHyphen \<longleftrightarrow>
      (\<not> ignoringComment st \<and> m = ''-'' \<and>
       regexContext (getEndContextForIncompleteExpression U (fx_expression st @ m)
                       (fx_runningContext st)) = R_CHAR_CLASS \<and>
       lastSignificantCharClassContext st = Some CC_RANGE)) \<and>
   flagXPreprocessor utilsSpec ''[a- -z]'' None = Inl InvalidRangeHyphen \<and>
   map_sum id fst (flagXPreprocessor utilsSpec ''[a-z]'' None) = Inr ''[a-z]''"
proof -
  have "flagXPreprocessor utilsSpec ''[a- -z]'' None = Inl InvalidRangeHyphen"
    by code_simp
  moreover have "map_sum id fst (flagXPreprocessor utilsSpec ''[a-z]'' None) = Inr ''[a-z]''"
    by code_simp
  ultimately show ?thesis
    using fxBody_hyphen [of U st m] by blast
qed

theorem range_hyphen_error_witness:
  "\<not> ignoringComment afterRangeHyphen \<and>
   lastSignificantCharClassContext afterRangeHyphen = Some CC_RANGE \<and>
   fxBody utilsSpec afterRangeHyphen ''-'' = Inl InvalidRangeHyphen"
proof -
  have "regexContext (getEndContextForIncompleteExpression utilsSpec
          (fx_expression afterRangeHyphen @ ''-'') (fx_runningContext afterRangeHyphen))
        = R_CHAR_CLASS"
    by code_simp
  then show ?thesis
    using range_hyphen_error [of utilsSpec afterRangeHyphen "''-''"]
    by (simp add: afterRangeHyphen_def)
qed

text \<open>
  The claim C7 as it is written fails on its own example: in \<^verbatim>\<open>[a b - z]\<close> the
  hyphen follows \<^verbatim>\<open>b\<close>, whose context is not \<^verbatim>\<open>RANGE\<close>, and the class compiles to
  \<^verbatim>\<open>[ab-z]\<close>.
\<close>

theorem spaced_range_counterexample:
  "flagXPreprocessor utilsSpec ''[a b - z]'' None =
     Inr (''[ab-z]'', Some \<lparr>regexContext = R_DEFAULT, charClassContext = CC_DEFAULT,
                           charClassDepth = 0, lastPos = 9\<rparr>)"
  by code_simp

end
